theory Spec2Isabelle
  imports Main "HOL-Library.Sublist"
begin

section \<open>JavaScript strings as the handler uses them\<close>

text \<open>
  A JavaScript string is a sequence of code units; it is modelled as a \<open>string\<close>
  (a list of \<open>char\<close>), one \<open>char\<close> per code unit, so \<open>slice(0, 60)\<close> is
  \<open>take 60\<close> and \<open>length\<close> counts code units.
\<close>

text \<open>\<open>String.prototype.trim\<close>: strips white space and line terminators from both
  ends. Of the code units a \<open>char\<close> can hold these are TAB, LF, VT, FF, CR, SPACE and
  NBSP.\<close>

definition is_js_space :: "char \<Rightarrow> bool" where
  "is_js_space c = (c \<in> {CHR 0x09, CHR 0x0A, CHR 0x0B, CHR 0x0C, CHR 0x0D, CHR 0x20, CHR 0xA0})"

definition trim :: "string \<Rightarrow> string" where
  "trim s = rev (dropWhile is_js_space (rev (dropWhile is_js_space s)))"

text \<open>\<open>Array.prototype.join\<close> on an array of strings.\<close>

fun join :: "string \<Rightarrow> string list \<Rightarrow> string" where
  "join sep [] = []"
| "join sep [x] = x"
| "join sep (x # y # ys) = x @ sep @ join sep (y # ys)"

text \<open>The decimal rendering of a non-negative integer, as a template literal prints
  \<open>idx + 1\<close> and \<open>data.length\<close>.\<close>

definition digit_char :: "nat \<Rightarrow> char" where
  "digit_char d = ''0123456789'' ! d"

function dec :: "nat \<Rightarrow> string" where
  "dec n = (if n < 10 then [digit_char n] else dec (n div 10) @ [digit_char (n mod 10)])"
  by pat_completeness auto
termination
  by (relation "measure id") auto

declare dec.simps [simp del]

section \<open>Knowledge rows\<close>

text \<open>
  A row of \<open>portfolio_knowledge\<close> as both reads select it
  (\<open>select("project,type,title,content,tags")\<close>): five text columns, each of which the
  store may return as \<open>null\<close> (\<open>None\<close>).
\<close>

record row =
  project :: "string option"
  type :: "string option"
  title :: "string option"
  content :: "string option"
  tags :: "string option"

text \<open>A template literal \<open>`${v}`\<close> on a column value: \<open>null\<close> prints as the text
  \<open>null\<close>.\<close>

fun template :: "string option \<Rightarrow> string" where
  "template None = ''null''"
| "template (Some s) = s"

text \<open>\<open>v ?? ""\<close> on a column value.\<close>

fun or_empty :: "string option \<Rightarrow> string" where
  "or_empty None = []"
| "or_empty (Some s) = s"

section \<open>Retrieval merger (route.ts, lines 110 to 120)\<close>

text \<open>The key of line 115:
  \<open>`${r.project}|${r.type}|${r.title}|${(r.content ?? "").slice(0, 60)}`\<close>.\<close>

definition row_key :: "row \<Rightarrow> string" where
  "row_key r =
     template (project r) @ ''|'' @ template (type r) @ ''|'' @ template (title r) @ ''|''
       @ take 60 (or_empty (content r))"

text \<open>The \<open>filter\<close> callback of lines 114 to 119 with its \<open>seen\<close> set, which grows as
  the filter walks the array from left to right.\<close>

fun dedup_filter :: "string set \<Rightarrow> row list \<Rightarrow> row list" where
  "dedup_filter seen [] = []"
| "dedup_filter seen (r # rs) =
     (let key = row_key r
      in if key \<in> seen then dedup_filter seen rs
         else r # dedup_filter (insert key seen) rs)"

text \<open>\<open>data\<close> of lines 110 to 120: the search rows first, then the essentials rows,
  filtered, then \<open>slice(0, 16)\<close>.\<close>

definition retrieval_merger :: "row list \<Rightarrow> row list \<Rightarrow> row list" where
  "retrieval_merger search_rows essentials_rows =
     (let merged = search_rows @ essentials_rows
      in take 16 (dedup_filter {} merged))"

text \<open>
  The specification's wording of the deduplication, for comparison with the filter of
  the source: of the concatenated rows, a row is kept exactly when no row before it has
  the same key.
\<close>

definition first_occurrences :: "row list \<Rightarrow> row list" where
  "first_occurrences xs =
     map (\<lambda>i. xs ! i)
       (filter (\<lambda>i. row_key (xs ! i) \<notin> row_key ` set (take i xs)) [0..<length xs])"

section \<open>Context formatter (route.ts, lines 122 to 132)\<close>

abbreviation LF :: char where
  "LF \<equiv> CHR 0x0A"

text \<open>The \<open>map\<close> callback of lines 123 to 131. \<open>(v ?? "").toString()\<close> is the
  identity on a string; the project column is not read.\<close>

definition source_block :: "nat \<Rightarrow> row \<Rightarrow> string" where
  "source_block idx r =
     (let title' = trim (or_empty (title r));
          type' = trim (or_empty (type r));
          content' = trim (or_empty (content r));
          tags' = trim (or_empty (tags r))
      in trim (''Source '' @ dec (idx + 1) @ '' ['' @ type'
               @ (if title' \<noteq> [] then '' | '' @ title' else [])
               @ (if tags' \<noteq> [] then '' | tags: '' @ tags' else [])
               @ '']'' @ [LF] @ content'))"

definition format_context :: "row list \<Rightarrow> string" where
  "format_context data =
     join [LF, LF] (map (\<lambda>(idx, r). source_block idx r) (enumerate 0 data))"




section \<open>JavaScript values\<close>

text \<open>
  The values the handler meets: what \<open>JSON.parse\<close> returns, and \<open>undefined\<close> for a
  property that is not there. A number is held as the text JavaScript prints for it
  (\<open>String(n)\<close>), which is all the handler does with a number besides testing it.
  An object is the list of its own properties; \<open>JSON.parse\<close> leaves one entry per
  name.
\<close>

datatype js_value =
    JUndefined
  | JNull
  | JBool bool
  | JNum string
  | JStr string
  | JArr "js_value list"
  | JObj "(string \<times> js_value) list"

datatype js_type = TUndefined | TObject | TBoolean | TNumber | TString

fun js_typeof :: "js_value \<Rightarrow> js_type" where
  "js_typeof JUndefined = TUndefined"
| "js_typeof JNull = TObject"
| "js_typeof (JBool b) = TBoolean"
| "js_typeof (JNum n) = TNumber"
| "js_typeof (JStr s) = TString"
| "js_typeof (JArr xs) = TObject"
| "js_typeof (JObj kvs) = TObject"

text \<open>\<open>ToBoolean\<close>, so that \<open>!v\<close> is \<open>\<not> truthy v\<close>. Both zeros print as \<open>0\<close>.\<close>

fun truthy :: "js_value \<Rightarrow> bool" where
  "truthy JUndefined = False"
| "truthy JNull = False"
| "truthy (JBool b) = b"
| "truthy (JNum n) = (n \<noteq> ''0'' \<and> n \<noteq> ''NaN'')"
| "truthy (JStr s) = (s \<noteq> [])"
| "truthy (JArr xs) = True"
| "truthy (JObj kvs) = True"

fun nullish :: "js_value \<Rightarrow> bool" where
  "nullish JUndefined = True"
| "nullish JNull = True"
| "nullish v = False"

text \<open>\<open>a ?? b\<close>.\<close>

definition coalesce :: "js_value \<Rightarrow> js_value \<Rightarrow> js_value" where
  "coalesce a b = (if nullish a then b else a)"

text \<open>What the handler can throw: an error thrown or rejected by a collaborator
  (\<open>req.json()\<close>, \<open>createClient\<close>, \<open>fetch\<close>, \<open>resp.text()\<close>, \<open>resp.json()\<close>),
  with its \<open>message\<close>, or a \<open>TypeError\<close> of the engine.\<close>

datatype type_error = DestructureNullish | ReadOfNullish | NotCallable | NotPrimitive

datatype js_error = Thrown string | TypeError type_error

text \<open>
  \<open>v.k\<close>, \<open>v?.k\<close> and \<open>v?.[0]\<close> for the property names the handler reads
  (\<open>message\<close>, \<open>conversationHistory\<close>, \<open>role\<close>, \<open>content\<close>, \<open>choices\<close>), none of
  which a string, number, boolean or array has. Reading a property of \<open>null\<close> or
  \<open>undefined\<close> throws; the optional forms give \<open>undefined\<close> there.
\<close>

fun own_property :: "js_value \<Rightarrow> string \<Rightarrow> js_value" where
  "own_property (JObj kvs) k = (case map_of kvs k of None \<Rightarrow> JUndefined | Some v \<Rightarrow> v)"
| "own_property v k = JUndefined"

definition member :: "js_value \<Rightarrow> string \<Rightarrow> js_error + js_value" where
  "member v k = (if nullish v then Inl (TypeError ReadOfNullish) else Inr (own_property v k))"

definition opt_member :: "js_value \<Rightarrow> string \<Rightarrow> js_value" where
  "opt_member v k = (if nullish v then JUndefined else own_property v k)"

fun opt_index0 :: "js_value \<Rightarrow> js_value" where
  "opt_index0 (JArr []) = JUndefined"
| "opt_index0 (JArr (x # xs)) = x"
| "opt_index0 (JStr []) = JUndefined"
| "opt_index0 (JStr (c # cs)) = JStr [c]"
| "opt_index0 (JObj kvs) = own_property (JObj kvs) ''0''"
| "opt_index0 v = JUndefined"

text \<open>\<open>const { message, conversationHistory } = v\<close>.\<close>

definition destructure :: "js_value \<Rightarrow> js_error + js_value \<times> js_value" where
  "destructure v =
     (if nullish v then Inl (TypeError DestructureNullish)
      else Inr (own_property v ''message'', own_property v ''conversationHistory''))"

text \<open>
  A template literal \<open>`${v}`\<close> on a value (\<open>ToString\<close>). An array prints its
  elements joined by commas, \<open>null\<close> and \<open>undefined\<close> elements as nothing. An object
  prints as \<open>[object Object]\<close> through the inherited \<open>toString\<close>; an object with an
  own property named \<open>toString\<close> (whose value, parsed from JSON, is not a function) has
  no callable \<open>toString\<close> and its \<open>valueOf\<close> returns the object, so the conversion
  throws a \<open>TypeError\<close>. The first throw ends the conversion of an array.
\<close>

fun js_to_string :: "js_value \<Rightarrow> js_error + string"
  and js_elements_to_strings :: "js_value list \<Rightarrow> js_error + string list" where
  "js_to_string JUndefined = Inr ''undefined''"
| "js_to_string JNull = Inr ''null''"
| "js_to_string (JBool b) = Inr (if b then ''true'' else ''false'')"
| "js_to_string (JNum n) = Inr n"
| "js_to_string (JStr s) = Inr s"
| "js_to_string (JArr xs) =
     (case js_elements_to_strings xs of Inl e \<Rightarrow> Inl e | Inr ss \<Rightarrow> Inr (join '','' ss))"
| "js_to_string (JObj kvs) =
     (case map_of kvs ''toString'' of
        Some v \<Rightarrow> Inl (TypeError NotPrimitive)
      | None \<Rightarrow> Inr ''[object Object]'')"
| "js_elements_to_strings [] = Inr []"
| "js_elements_to_strings (x # xs) =
     (case (if nullish x then Inr [] else js_to_string x) of
        Inl e \<Rightarrow> Inl e
      | Inr s \<Rightarrow>
          (case js_elements_to_strings xs of Inl e \<Rightarrow> Inl e | Inr ss \<Rightarrow> Inr (s # ss)))"

text \<open>The string held by a value known to be a string.\<close>

fun string_value :: "js_value \<Rightarrow> string" where
  "string_value (JStr s) = s"
| "string_value v = []"

text \<open>\<open>Array.prototype.map\<close> with a callback that may throw: the first throw ends
  it.\<close>

fun map_throwing :: "('a \<Rightarrow> js_error + 'b) \<Rightarrow> 'a list \<Rightarrow> js_error + 'b list" where
  "map_throwing f [] = Inr []"
| "map_throwing f (x # xs) =
     (case f x of
        Inl e \<Rightarrow> Inl e
      | Inr y \<Rightarrow> (case map_throwing f xs of Inl e \<Rightarrow> Inl e | Inr ys \<Rightarrow> Inr (y # ys)))"

section \<open>Collaborators of the handler\<close>

text \<open>\<open>process.env\<close>: a variable is a string or is not set.\<close>

record env =
  NEXT_PUBLIC_SUPABASE_URL :: "string option"
  NEXT_PUBLIC_SUPABASE_ANON_KEY :: "string option"
  GROQ_API_KEY :: "string option"

text \<open>\<open>!v\<close> on an environment variable.\<close>

fun env_missing :: "string option \<Rightarrow> bool" where
  "env_missing None = True"
| "env_missing (Some s) = (s = [])"

text \<open>A query as the handler builds it on the store client, and what awaiting it
  resolves to: \<open>{ data, error }\<close>. The client resolves a failed read with \<open>error\<close>
  set; it does not reject.\<close>

datatype filter_clause = In_filter string "string list" | Or_filter string

record query =
  from_table :: string
  select_columns :: string
  filter_by :: filter_clause
  limit :: nat

record store_error =
  error_message :: string

record read_result =
  res_data :: "row list option"
  res_error :: "store_error option"

text \<open>The request given to \<open>fetch\<close> (the body before \<open>JSON.stringify\<close>) and the
  response it resolves to: \<open>resp.ok\<close>, and the outcomes of \<open>resp.text()\<close> and
  \<open>resp.json()\<close>.\<close>

record fetch_request =
  url :: string
  http_method :: string
  request_headers :: "(string \<times> string) list"
  request_body :: js_value

record fetch_response =
  ok :: bool
  text_result :: "js_error + string"
  json_result :: "js_error + js_value"

text \<open>Everything outside the handler: the environment, \<open>createClient\<close> (which may
  throw), the store, \<open>fetch\<close> (which may reject), and the message text the engine
  gives a \<open>TypeError\<close>.\<close>

record world =
  process_env :: env
  createClient :: "string \<Rightarrow> string \<Rightarrow> js_error option"
  run_query :: "query \<Rightarrow> read_result"
  fetch :: "fetch_request \<Rightarrow> js_error + fetch_response"
  type_error_text :: "type_error \<Rightarrow> string"

text \<open>The incoming request: the outcome of \<open>await req.json()\<close>, which rejects when
  the body is not valid JSON.\<close>

record request =
  req_json :: "js_error + js_value"

text \<open>The calls the handler issues, in order.\<close>

datatype event = StoreRead query | CompletionCall fetch_request

text \<open>A response: status, headers, and the JSON body (none for \<open>new Response(null)\<close>).\<close>

record response =
  status :: nat
  headers :: "(string \<times> string) list"
  body :: "js_value option"

text \<open>\<open>NextResponse.json(body, { status, headers })\<close>: the given headers and the JSON
  content type.\<close>

definition next_json :: "js_value \<Rightarrow> nat \<Rightarrow> (string \<times> string) list \<Rightarrow> response" where
  "next_json b st hs =
     \<lparr>status = st, headers = hs @ [(''content-type'', ''application/json'')], body = Some b\<rparr>"

text \<open>\<open>e?.message ?? String(e)\<close> on a thrown error.\<close>

fun thrown_message :: "world \<Rightarrow> js_error \<Rightarrow> string" where
  "thrown_message w (Thrown m) = m"
| "thrown_message w (TypeError t) = type_error_text w t"

text \<open>The three cross-origin headers are present with the values of lines 4 to 8.\<close>

definition has_cors_headers :: "response \<Rightarrow> bool" where
  "has_cors_headers r =
     (map_of (headers r) ''Access-Control-Allow-Origin'' = Some ''*''
      \<and> map_of (headers r) ''Access-Control-Allow-Methods'' = Some ''POST, OPTIONS''
      \<and> map_of (headers r) ''Access-Control-Allow-Headers'' = Some ''Content-Type'')"

text \<open>A field of a response's JSON body, and the two kinds of calls in a trace.\<close>

definition response_field :: "response \<Rightarrow> string \<Rightarrow> js_value option" where
  "response_field r k = (case body r of Some (JObj kvs) \<Rightarrow> map_of kvs k | _ \<Rightarrow> None)"

fun store_reads :: "event list \<Rightarrow> query list" where
  "store_reads [] = []"
| "store_reads (StoreRead q # es) = q # store_reads es"
| "store_reads (CompletionCall r # es) = store_reads es"

fun completion_calls :: "event list \<Rightarrow> fetch_request list" where
  "completion_calls [] = []"
| "completion_calls (StoreRead q # es) = completion_calls es"
| "completion_calls (CompletionCall r # es) = r # completion_calls es"

fun is_array :: "js_value \<Rightarrow> bool" where
  "is_array (JArr xs) = True"
| "is_array v = False"

text \<open>The request passes validation and configuration and the client is created.\<close>

definition reaches_store :: "world \<Rightarrow> request \<Rightarrow> bool" where
  "reaches_store w req =
     (case req_json req of
        Inl e \<Rightarrow> False
      | Inr parsed \<Rightarrow>
          \<not> nullish parsed
          \<and> truthy (own_property parsed ''message'')
          \<and> js_typeof (own_property parsed ''message'') = TString
          \<and> \<not> env_missing (NEXT_PUBLIC_SUPABASE_URL (process_env w))
          \<and> \<not> env_missing (NEXT_PUBLIC_SUPABASE_ANON_KEY (process_env w))
          \<and> \<not> env_missing (GROQ_API_KEY (process_env w))
          \<and> createClient w (or_empty (NEXT_PUBLIC_SUPABASE_URL (process_env w)))
               (or_empty (NEXT_PUBLIC_SUPABASE_ANON_KEY (process_env w))) = None)"

section \<open>The handler of src/app/api/chat/route.ts\<close>

definition corsHeaders :: "(string \<times> string) list" where
  "corsHeaders =
     [(''Access-Control-Allow-Origin'', ''*''),
      (''Access-Control-Allow-Methods'', ''POST, OPTIONS''),
      (''Access-Control-Allow-Headers'', ''Content-Type'')]"

text \<open>Lines 12 to 14.\<close>

definition OPTIONS :: response where
  "OPTIONS = \<lparr>status = 204, headers = corsHeaders, body = None\<rparr>"

text \<open>Lines 49 to 61 and 63 to 75: the two queries.\<close>

definition essentials_query :: query where
  "essentials_query =
     \<lparr>from_table = ''portfolio_knowledge'',
      select_columns = ''project,type,title,content,tags'',
      filter_by = In_filter ''type''
        [''bio'', ''skills'', ''education'', ''certification'', ''philosophy'', ''personal'',
         ''contact''],
      limit = 12\<rparr>"

definition search_query :: "string \<Rightarrow> query" where
  "search_query q =
     \<lparr>from_table = ''portfolio_knowledge'',
      select_columns = ''project,type,title,content,tags'',
      filter_by = Or_filter (join '',''
        [''title.ilike.%'' @ q @ ''%'',
         ''content.ilike.%'' @ q @ ''%'',
         ''tags.ilike.%'' @ q @ ''%'',
         ''project.ilike.%'' @ q @ ''%'',
         ''type.ilike.%'' @ q @ ''%'']),
      limit = 12\<rparr>"

text \<open>Lines 179 to 182: the history lines of the user message.
  \<open>(conversationHistory ?? [])\<close> is then sliced and mapped: an array has both methods,
  a string has \<open>slice\<close> but its result has no \<open>map\<close>, any other value has no
  \<open>slice\<close>; the callback reads \<open>m.role\<close> and \<open>m.content\<close> and converts each to
  a string, in that order.\<close>

definition history_line :: "js_value \<Rightarrow> js_error + string" where
  "history_line m =
     (case member m ''role'' of
        Inl e \<Rightarrow> Inl e
      | Inr role \<Rightarrow>
     (case js_to_string role of
        Inl e \<Rightarrow> Inl e
      | Inr role_text \<Rightarrow>
     (case member m ''content'' of
        Inl e \<Rightarrow> Inl e
      | Inr content' \<Rightarrow>
     (case js_to_string content' of
        Inl e \<Rightarrow> Inl e
      | Inr content_text \<Rightarrow> Inr (role_text @ '': '' @ content_text)))))"

definition history_lines :: "js_value \<Rightarrow> js_error + string" where
  "history_lines conversationHistory =
     (case coalesce conversationHistory (JArr []) of
        JArr ms \<Rightarrow>
          (case map_throwing history_line (drop (length ms - 6) ms) of
             Inl e \<Rightarrow> Inl e
           | Inr ls \<Rightarrow> Inr (join [LF] ls))
      | _ \<Rightarrow> Inl (TypeError NotCallable))"

text \<open>Lines 177 to 183: the content of the user message.\<close>

definition user_content :: "row list \<Rightarrow> string \<Rightarrow> js_value \<Rightarrow> string \<Rightarrow> js_error + string" where
  "user_content data context conversationHistory message =
     (case history_lines conversationHistory of
        Inl e \<Rightarrow> Inl e
      | Inr history \<Rightarrow>
          Inr (''PORTFOLIO CONTEXT (rows: '' @ dec (length data) @ ''):'' @ [LF] @ context
               @ [LF, LF]
               @ ''Conversation history (brief):'' @ [LF] @ history @ [LF, LF]
               @ ''User question:'' @ [LF] @ message))"

text \<open>Lines 173 to 202: the request sent to the completion service. The system
  message and the token budget are the two parameters.\<close>

definition completion_request :: "string \<Rightarrow> string \<Rightarrow> nat \<Rightarrow> string \<Rightarrow> fetch_request" where
  "completion_request groqKey system max_tokens content' =
     (let messages =
        JArr [JObj [(''role'', JStr ''system''), (''content'', JStr system)],
              JObj [(''role'', JStr ''user''), (''content'', JStr content')]]
      in \<lparr>url = ''https://api.groq.com/openai/v1/chat/completions'',
          http_method = ''POST'',
          request_headers =
            [(''Content-Type'', ''application/json''),
             (''Authorization'', ''Bearer '' @ groqKey)],
          request_body =
            JObj [(''model'', JStr ''llama-3.1-8b-instant''),
                  (''messages'', messages),
                  (''temperature'', JNum ''0.3''),
                  (''max_tokens'', JNum (dec max_tokens))]\<rparr>)"

text \<open>Lines 213 to 215.\<close>

definition fallback_sentence :: string where
  "fallback_sentence = ''I don'' @ [CHR 0x27] @ ''t know based on my portfolio content.''"

definition answer_of :: "js_value \<Rightarrow> js_value" where
  "answer_of out =
     coalesce
       (opt_member (opt_member (opt_index0 (opt_member out ''choices'')) ''message'') ''content'')
       (JStr fallback_sentence)"

text \<open>Lines 204 to 217: from the outcome of \<open>fetch\<close> to the response.\<close>

definition relay_completion :: "js_error + fetch_response \<Rightarrow> js_error + response" where
  "relay_completion fetched =
     (case fetched of
        Inl e \<Rightarrow> Inl e
      | Inr resp \<Rightarrow>
          if \<not> ok resp then
            (case text_result resp of
               Inl e \<Rightarrow> Inl e
             | Inr errText \<Rightarrow>
                 Inr (next_json
                       (JObj [(''error'', JStr ''Groq request failed''), (''details'', JStr errText)])
                       500 corsHeaders))
          else
            (case json_result resp of
               Inl e \<Rightarrow> Inl e
             | Inr out \<Rightarrow>
                 Inr (next_json (JObj [(''response'', answer_of out)]) 200 corsHeaders)))"

text \<open>Lines 91 to 217: from the two read results to the response. The flag
  \<open>isProjectQuestion\<close> of lines 82 to 89 is computed and never read, so it is left
  out.\<close>

definition answer_from_reads ::
  "string \<Rightarrow> nat \<Rightarrow> world \<Rightarrow> string \<Rightarrow> string \<Rightarrow> js_value \<Rightarrow> read_result \<Rightarrow> read_result
    \<Rightarrow> (js_error + response) \<times> event list" where
  "answer_from_reads system max_tokens w groqKey message conversationHistory essentialsRes searchRes =
     (case res_error essentialsRes of
        Some err \<Rightarrow>
          (Inr (next_json
                 (JObj [(''error'', JStr ''Supabase essentials query failed''),
                        (''details'', JStr (error_message err))])
                 500 corsHeaders), [])
      | None \<Rightarrow>
     (case res_error searchRes of
        Some err \<Rightarrow>
          (Inr (next_json
                 (JObj [(''error'', JStr ''Supabase search query failed''),
                        (''details'', JStr (error_message err))])
                 500 corsHeaders), [])
      | None \<Rightarrow>
     (let data = retrieval_merger
                   (case res_data searchRes of None \<Rightarrow> [] | Some rows \<Rightarrow> rows)
                   (case res_data essentialsRes of None \<Rightarrow> [] | Some rows \<Rightarrow> rows);
          context = format_context data
      in case user_content data context conversationHistory message of
           Inl e \<Rightarrow> (Inl e, [])
         | Inr content' \<Rightarrow>
             (let request = completion_request groqKey system max_tokens content'
              in (relay_completion (fetch w request), [CompletionCall request])))))"

text \<open>Lines 18 to 217: the body of the \<open>try\<close> block, with what it returns or throws
  and the calls it issued.\<close>

definition POST_try ::
  "string \<Rightarrow> nat \<Rightarrow> world \<Rightarrow> request \<Rightarrow> (js_error + response) \<times> event list" where
  "POST_try system max_tokens w req =
     (case req_json req of
        Inl e \<Rightarrow> (Inl e, [])
      | Inr parsed \<Rightarrow>
     (case destructure parsed of
        Inl e \<Rightarrow> (Inl e, [])
      | Inr (message, conversationHistory) \<Rightarrow>
     if \<not> truthy message \<or> js_typeof message \<noteq> TString then
       (Inr (next_json (JObj [(''error'', JStr (''Missing '' @ [CHR 0x27] @ ''message'' @ [CHR 0x27] @ ''.''))])
              400 corsHeaders), [])
     else
     (let supabaseUrl = NEXT_PUBLIC_SUPABASE_URL (process_env w);
          supabaseAnonKey = NEXT_PUBLIC_SUPABASE_ANON_KEY (process_env w);
          groqKey = GROQ_API_KEY (process_env w)
      in
     if env_missing supabaseUrl \<or> env_missing supabaseAnonKey then
       (Inr (next_json (JObj [(''error'', JStr ''Missing Supabase env vars'')]) 500 corsHeaders), [])
     else if env_missing groqKey then
       (Inr (next_json (JObj [(''error'', JStr ''Missing GROQ_API_KEY'')]) 500 corsHeaders), [])
     else
     (case createClient w (or_empty supabaseUrl) (or_empty supabaseAnonKey) of
        Some e \<Rightarrow> (Inl e, [])
      | None \<Rightarrow>
     (let q = trim (string_value message);
          essentialsRes = run_query w essentials_query;
          searchRes = run_query w (search_query q);
          reads = [StoreRead essentials_query, StoreRead (search_query q)];
          (outcome, calls) =
            answer_from_reads system max_tokens w (or_empty groqKey) (string_value message)
              conversationHistory essentialsRes searchRes
      in (outcome, reads @ calls))))))"

text \<open>Lines 16 to 224: the handler, with the \<open>catch\<close> of lines 218 to 223.\<close>

definition POST_with :: "string \<Rightarrow> nat \<Rightarrow> world \<Rightarrow> request \<Rightarrow> response \<times> event list" where
  "POST_with system max_tokens w req =
     (case POST_try system max_tokens w req of
        (Inr r, calls) \<Rightarrow> (r, calls)
      | (Inl e, calls) \<Rightarrow>
          (next_json
             (JObj [(''error'', JStr ''Server error''), (''details'', JStr (thrown_message w e))])
             500 corsHeaders,
           calls))"

text \<open>
  The handler as route.ts configures it: the system message is the template literal of
  lines 135 to 171, trimmed, and the budget is 300 tokens. The template's text is a
  parameter: it holds code units beyond those of a \<open>char\<close>, and the handler does
  nothing with it but send it.
\<close>

definition POST :: "string \<Rightarrow> world \<Rightarrow> request \<Rightarrow> response \<times> event list" where
  "POST system_template w req = POST_with (trim system_template) 300 w req"

section \<open>The handler of src/unnamed/part_000\<close>

text \<open>
  The second handler file, translated on its own, definition by definition, in the order
  of its lines. Its names carry the suffix \<open>_alt\<close>.
\<close>

text \<open>Lines 4 to 8.\<close>

definition corsHeaders_alt :: "(string \<times> string) list" where
  "corsHeaders_alt =
     [(''Access-Control-Allow-Origin'', ''*''),
      (''Access-Control-Allow-Methods'', ''POST, OPTIONS''),
      (''Access-Control-Allow-Headers'', ''Content-Type'')]"

text \<open>Lines 12 to 14.\<close>

definition OPTIONS_alt :: response where
  "OPTIONS_alt = \<lparr>status = 204, headers = corsHeaders_alt, body = None\<rparr>"

text \<open>Lines 49 to 61.\<close>

definition essentials_query_alt :: query where
  "essentials_query_alt =
     \<lparr>from_table = ''portfolio_knowledge'',
      select_columns = ''project,type,title,content,tags'',
      filter_by = In_filter ''type''
        [''bio'', ''skills'', ''education'', ''certification'', ''philosophy'', ''personal'',
         ''contact''],
      limit = 12\<rparr>"

text \<open>Lines 63 to 75.\<close>

definition search_query_alt :: "string \<Rightarrow> query" where
  "search_query_alt q =
     \<lparr>from_table = ''portfolio_knowledge'',
      select_columns = ''project,type,title,content,tags'',
      filter_by = Or_filter (join '',''
        [''title.ilike.%'' @ q @ ''%'',
         ''content.ilike.%'' @ q @ ''%'',
         ''tags.ilike.%'' @ q @ ''%'',
         ''project.ilike.%'' @ q @ ''%'',
         ''type.ilike.%'' @ q @ ''%'']),
      limit = 12\<rparr>"

text \<open>Line 115.\<close>

definition row_key_alt :: "row \<Rightarrow> string" where
  "row_key_alt r =
     template (project r) @ ''|'' @ template (type r) @ ''|'' @ template (title r) @ ''|''
       @ take 60 (or_empty (content r))"

text \<open>Lines 112 to 119.\<close>

fun dedup_filter_alt :: "string set \<Rightarrow> row list \<Rightarrow> row list" where
  "dedup_filter_alt seen [] = []"
| "dedup_filter_alt seen (r # rs) =
     (let key = row_key_alt r
      in if key \<in> seen then dedup_filter_alt seen rs
         else r # dedup_filter_alt (insert key seen) rs)"

text \<open>Lines 110 to 120.\<close>

definition retrieval_merger_alt :: "row list \<Rightarrow> row list \<Rightarrow> row list" where
  "retrieval_merger_alt search_rows essentials_rows =
     (let merged = search_rows @ essentials_rows
      in take 16 (dedup_filter_alt {} merged))"

text \<open>Lines 123 to 131.\<close>

definition source_block_alt :: "nat \<Rightarrow> row \<Rightarrow> string" where
  "source_block_alt idx r =
     (let title' = trim (or_empty (title r));
          type' = trim (or_empty (type r));
          content' = trim (or_empty (content r));
          tags' = trim (or_empty (tags r))
      in trim (''Source '' @ dec (idx + 1) @ '' ['' @ type'
               @ (if title' \<noteq> [] then '' | '' @ title' else [])
               @ (if tags' \<noteq> [] then '' | tags: '' @ tags' else [])
               @ '']'' @ [LF] @ content'))"

text \<open>Lines 122 to 132.\<close>

definition format_context_alt :: "row list \<Rightarrow> string" where
  "format_context_alt data =
     join [LF, LF] (map (\<lambda>(idx, r). source_block_alt idx r) (enumerate 0 data))"

text \<open>Line 179, the callback.\<close>

definition history_line_alt :: "js_value \<Rightarrow> js_error + string" where
  "history_line_alt m =
     (case member m ''role'' of
        Inl e \<Rightarrow> Inl e
      | Inr role \<Rightarrow>
     (case js_to_string role of
        Inl e \<Rightarrow> Inl e
      | Inr role_text \<Rightarrow>
     (case member m ''content'' of
        Inl e \<Rightarrow> Inl e
      | Inr content' \<Rightarrow>
     (case js_to_string content' of
        Inl e \<Rightarrow> Inl e
      | Inr content_text \<Rightarrow> Inr (role_text @ '': '' @ content_text)))))"

text \<open>Lines 177 to 180.\<close>

definition history_lines_alt :: "js_value \<Rightarrow> js_error + string" where
  "history_lines_alt conversationHistory =
     (case coalesce conversationHistory (JArr []) of
        JArr ms \<Rightarrow>
          (case map_throwing history_line_alt (drop (length ms - 6) ms) of
             Inl e \<Rightarrow> Inl e
           | Inr ls \<Rightarrow> Inr (join [LF] ls))
      | _ \<Rightarrow> Inl (TypeError NotCallable))"

text \<open>Lines 175 to 181.\<close>

definition user_content_alt :: "row list \<Rightarrow> string \<Rightarrow> js_value \<Rightarrow> string \<Rightarrow> js_error + string" where
  "user_content_alt data context conversationHistory message =
     (case history_lines_alt conversationHistory of
        Inl e \<Rightarrow> Inl e
      | Inr history \<Rightarrow>
          Inr (''PORTFOLIO CONTEXT (rows: '' @ dec (length data) @ ''):'' @ [LF] @ context
               @ [LF, LF]
               @ ''Conversation history (brief):'' @ [LF] @ history @ [LF, LF]
               @ ''User question:'' @ [LF] @ message))"

text \<open>Lines 171 to 200, with the system message and the token budget as parameters.\<close>

definition completion_request_alt :: "string \<Rightarrow> string \<Rightarrow> nat \<Rightarrow> string \<Rightarrow> fetch_request" where
  "completion_request_alt groqKey system max_tokens content' =
     (let messages =
        JArr [JObj [(''role'', JStr ''system''), (''content'', JStr system)],
              JObj [(''role'', JStr ''user''), (''content'', JStr content')]]
      in \<lparr>url = ''https://api.groq.com/openai/v1/chat/completions'',
          http_method = ''POST'',
          request_headers =
            [(''Content-Type'', ''application/json''),
             (''Authorization'', ''Bearer '' @ groqKey)],
          request_body =
            JObj [(''model'', JStr ''llama-3.1-8b-instant''),
                  (''messages'', messages),
                  (''temperature'', JNum ''0.3''),
                  (''max_tokens'', JNum (dec max_tokens))]\<rparr>)"

text \<open>Line 213.\<close>

definition fallback_sentence_alt :: string where
  "fallback_sentence_alt = ''I don'' @ [CHR 0x27] @ ''t know based on my portfolio content.''"

text \<open>Lines 211 to 213.\<close>

definition answer_of_alt :: "js_value \<Rightarrow> js_value" where
  "answer_of_alt out =
     coalesce
       (opt_member (opt_member (opt_index0 (opt_member out ''choices'')) ''message'') ''content'')
       (JStr fallback_sentence_alt)"

text \<open>Lines 202 to 215.\<close>

definition relay_completion_alt :: "js_error + fetch_response \<Rightarrow> js_error + response" where
  "relay_completion_alt fetched =
     (case fetched of
        Inl e \<Rightarrow> Inl e
      | Inr resp \<Rightarrow>
          if \<not> ok resp then
            (case text_result resp of
               Inl e \<Rightarrow> Inl e
             | Inr errText \<Rightarrow>
                 Inr (next_json
                       (JObj [(''error'', JStr ''Groq request failed''), (''details'', JStr errText)])
                       500 corsHeaders_alt))
          else
            (case json_result resp of
               Inl e \<Rightarrow> Inl e
             | Inr out \<Rightarrow>
                 Inr (next_json (JObj [(''response'', answer_of_alt out)]) 200 corsHeaders_alt)))"

text \<open>Lines 91 to 215.\<close>

definition answer_from_reads_alt ::
  "string \<Rightarrow> nat \<Rightarrow> world \<Rightarrow> string \<Rightarrow> string \<Rightarrow> js_value \<Rightarrow> read_result \<Rightarrow> read_result
    \<Rightarrow> (js_error + response) \<times> event list" where
  "answer_from_reads_alt system max_tokens w groqKey message conversationHistory essentialsRes searchRes =
     (case res_error essentialsRes of
        Some err \<Rightarrow>
          (Inr (next_json
                 (JObj [(''error'', JStr ''Supabase essentials query failed''),
                        (''details'', JStr (error_message err))])
                 500 corsHeaders_alt), [])
      | None \<Rightarrow>
     (case res_error searchRes of
        Some err \<Rightarrow>
          (Inr (next_json
                 (JObj [(''error'', JStr ''Supabase search query failed''),
                        (''details'', JStr (error_message err))])
                 500 corsHeaders_alt), [])
      | None \<Rightarrow>
     (let data = retrieval_merger_alt
                   (case res_data searchRes of None \<Rightarrow> [] | Some rows \<Rightarrow> rows)
                   (case res_data essentialsRes of None \<Rightarrow> [] | Some rows \<Rightarrow> rows);
          context = format_context_alt data
      in case user_content_alt data context conversationHistory message of
           Inl e \<Rightarrow> (Inl e, [])
         | Inr content' \<Rightarrow>
             (let request = completion_request_alt groqKey system max_tokens content'
              in (relay_completion_alt (fetch w request), [CompletionCall request])))))"

text \<open>Lines 18 to 215.\<close>

definition POST_try_alt ::
  "string \<Rightarrow> nat \<Rightarrow> world \<Rightarrow> request \<Rightarrow> (js_error + response) \<times> event list" where
  "POST_try_alt system max_tokens w req =
     (case req_json req of
        Inl e \<Rightarrow> (Inl e, [])
      | Inr parsed \<Rightarrow>
     (case destructure parsed of
        Inl e \<Rightarrow> (Inl e, [])
      | Inr (message, conversationHistory) \<Rightarrow>
     if \<not> truthy message \<or> js_typeof message \<noteq> TString then
       (Inr (next_json (JObj [(''error'', JStr (''Missing '' @ [CHR 0x27] @ ''message'' @ [CHR 0x27] @ ''.''))])
              400 corsHeaders_alt), [])
     else
     (let supabaseUrl = NEXT_PUBLIC_SUPABASE_URL (process_env w);
          supabaseAnonKey = NEXT_PUBLIC_SUPABASE_ANON_KEY (process_env w);
          groqKey = GROQ_API_KEY (process_env w)
      in
     if env_missing supabaseUrl \<or> env_missing supabaseAnonKey then
       (Inr (next_json (JObj [(''error'', JStr ''Missing Supabase env vars'')]) 500 corsHeaders_alt), [])
     else if env_missing groqKey then
       (Inr (next_json (JObj [(''error'', JStr ''Missing GROQ_API_KEY'')]) 500 corsHeaders_alt), [])
     else
     (case createClient w (or_empty supabaseUrl) (or_empty supabaseAnonKey) of
        Some e \<Rightarrow> (Inl e, [])
      | None \<Rightarrow>
     (let q = trim (string_value message);
          essentialsRes = run_query w essentials_query_alt;
          searchRes = run_query w (search_query_alt q);
          reads = [StoreRead essentials_query_alt, StoreRead (search_query_alt q)];
          (outcome, calls) =
            answer_from_reads_alt system max_tokens w (or_empty groqKey) (string_value message)
              conversationHistory essentialsRes searchRes
      in (outcome, reads @ calls))))))"

text \<open>Lines 16 to 222, with the \<open>catch\<close> of lines 216 to 221.\<close>

definition POST_with_alt :: "string \<Rightarrow> nat \<Rightarrow> world \<Rightarrow> request \<Rightarrow> response \<times> event list" where
  "POST_with_alt system max_tokens w req =
     (case POST_try_alt system max_tokens w req of
        (Inr r, calls) \<Rightarrow> (r, calls)
      | (Inl e, calls) \<Rightarrow>
          (next_json
             (JObj [(''error'', JStr ''Server error''), (''details'', JStr (thrown_message w e))])
             500 corsHeaders_alt,
           calls))"

text \<open>The handler as part_000 configures it: the system message is the template literal
  of lines 135 to 169 as it stands (it is not trimmed), and the budget is 120 tokens.\<close>

definition POST_alt :: "string \<Rightarrow> world \<Rightarrow> request \<Rightarrow> response \<times> event list" where
  "POST_alt system_template w req = POST_with_alt system_template 120 w req"

text \<open>Rows used as concrete inputs.\<close>

definition titled_row :: "string \<Rightarrow> row" where
  "titled_row t =
     \<lparr>project = None, type = Some ''project'', title = Some t, content = Some ''x'',
      tags = None\<rparr>"

definition search_12 :: "row list" where
  "search_12 = map titled_row
     [''s01'', ''s02'', ''s03'', ''s04'', ''s05'', ''s06'',
      ''s07'', ''s08'', ''s09'', ''s10'', ''s11'', ''s12'']"

definition essentials_5 :: "row list" where
  "essentials_5 = map titled_row [''e01'', ''e02'', ''e03'', ''e04'', ''e05'']"






definition plain_row :: row where
  "plain_row =
     \<lparr>project = Some ''Moodly'', type = Some ''project'', title = Some ''Moodly'',
      content = Some ''A mood journal'', tags = Some ''ux, research''\<rparr>"

text \<open>A world in which everything succeeds: the configuration is complete, each read
  returns one row, and the completion service answers with an empty JSON object.\<close>

definition demo_env :: env where
  "demo_env =
     \<lparr>NEXT_PUBLIC_SUPABASE_URL = Some ''https://demo.supabase.co'',
      NEXT_PUBLIC_SUPABASE_ANON_KEY = Some ''anon'',
      GROQ_API_KEY = Some ''gsk_demo''\<rparr>"

definition demo_world :: world where
  "demo_world =
     \<lparr>process_env = demo_env,
      createClient = (\<lambda>supabaseUrl supabaseAnonKey. None),
      run_query = (\<lambda>q. \<lparr>res_data = Some [plain_row], res_error = None\<rparr>),
      fetch = (\<lambda>r. Inr \<lparr>ok = True, text_result = Inr ''{}'', json_result = Inr (JObj [])\<rparr>),
      type_error_text = (\<lambda>t. ''TypeError'')\<rparr>"

text \<open>The same world with a store whose search read fails.\<close>

definition failing_search_world :: world where
  "failing_search_world =
     demo_world\<lparr>run_query := (\<lambda>q.
       if q = essentials_query then \<lparr>res_data = Some [plain_row], res_error = None\<rparr>
       else \<lparr>res_data = None, res_error = Some \<lparr>error_message = ''permission denied''\<rparr>\<rparr>)\<rparr>"

definition demo_system :: string where
  "demo_system = ''You are a portfolio assistant.''"

definition demo_request :: request where
  "demo_request = \<lparr>req_json = Inr (JObj [(''message'', JStr ''education'')])\<rparr>"

text \<open>The completion request the handler sends for \<open>demo_request\<close> in
  \<open>demo_world\<close>.\<close>

definition demo_completion_request :: fetch_request where
  "demo_completion_request =
     completion_request ''gsk_demo'' demo_system 300
       (''PORTFOLIO CONTEXT (rows: 1):'' @ [LF]
        @ ''Source 1 [project | Moodly | tags: ux, research]'' @ [LF]
        @ ''A mood journal'' @ [LF, LF]
        @ ''Conversation history (brief):'' @ [LF] @ [LF, LF]
        @ ''User question:'' @ [LF] @ ''education'')"

text \<open>A request whose body is not JSON, and a body whose history is a number.\<close>

definition not_json_request :: request where
  "not_json_request = \<lparr>req_json = Inl (Thrown ''Unexpected token'')\<rparr>"

definition number_history :: js_value where
  "number_history = JObj [(''message'', JStr ''hi''), (''conversationHistory'', JNum ''5'')]"

text \<open>A world in which both reads fail, each with its own message.\<close>

definition both_reads_fail_world :: world where
  "both_reads_fail_world =
     demo_world\<lparr>run_query := (\<lambda>q.
       if q = essentials_query
       then \<lparr>res_data = None, res_error = Some \<lparr>error_message = ''essentials down''\<rparr>\<rparr>
       else \<lparr>res_data = None, res_error = Some \<lparr>error_message = ''permission denied''\<rparr>\<rparr>)\<rparr>"

text \<open>Worlds in which the completion service answers with a success status and, in
  turn, a first choice whose content is the empty string, a first choice whose content
  is a number, and a body that is not JSON.\<close>

definition empty_content_world :: world where
  \<open>empty_content_world =
     demo_world\<lparr>fetch := (\<lambda>r. Inr
       \<lparr>ok = True, text_result = Inr ''{"choices":[{"message":{"content":""}}]}'',
        json_result = Inr (JObj [(''choices'',
          JArr [JObj [(''message'', JObj [(''content'', JStr [])])]])])\<rparr>)\<rparr>\<close>

definition number_content_world :: world where
  \<open>number_content_world =
     demo_world\<lparr>fetch := (\<lambda>r. Inr
       \<lparr>ok = True, text_result = Inr ''{"choices":[{"message":{"content":42}}]}'',
        json_result = Inr (JObj [(''choices'',
          JArr [JObj [(''message'', JObj [(''content'', JNum ''42'')])]])])\<rparr>)\<rparr>\<close>

definition not_json_completion_world :: world where
  "not_json_completion_world =
     demo_world\<lparr>fetch := (\<lambda>r. Inr
       \<lparr>ok = True, text_result = Inr ''<html>'',
        json_result = Inl (Thrown ''Unexpected token'')\<rparr>)\<rparr>"

section \<open>Properties of the retrieval merger\<close>

lemma dedup_filter_keys:
  "row_key ` set (dedup_filter seen xs) = row_key ` set xs - seen"
  by (induction xs arbitrary: seen) (auto simp: Let_def)

lemma dedup_filter_distinct: "distinct (map row_key (dedup_filter seen xs))"
proof (induction xs arbitrary: seen)
  case Nil
  show ?case by simp
next
  case (Cons r rs)
  have "row_key r \<notin> row_key ` set (dedup_filter (insert (row_key r) seen) rs)"
    by (simp add: dedup_filter_keys)
  with Cons show ?case by (simp add: Let_def)
qed

lemma dedup_filter_subseq: "subseq (dedup_filter seen xs) xs"
  by (induction xs arbitrary: seen) (auto simp: Let_def)

lemma dedup_filter_index:
  "dedup_filter seen xs =
     map (\<lambda>i. xs ! i)
       (filter (\<lambda>i. row_key (xs ! i) \<notin> seen \<union> row_key ` set (take i xs)) [0..<length xs])"
proof (induction xs arbitrary: seen)
  case Nil
  show ?case by simp
next
  case (Cons r rs)
  have upt: "[0..<length (r # rs)] = 0 # map Suc [0..<length rs]"
    by (simp add: upt_conv_Cons map_Suc_upt del: upt_Suc)
  have same: "filter (\<lambda>i. row_key (rs ! i) \<notin> seen \<and> row_key (rs ! i) \<noteq> row_key r \<and> P i) js =
      filter (\<lambda>i. row_key (rs ! i) \<notin> seen \<and> P i) js"
    if "row_key r \<in> seen" for P js
    using that by (intro filter_cong) auto
  have swap: "filter (\<lambda>i. row_key (rs ! i) \<noteq> row_key r \<and> row_key (rs ! i) \<notin> seen \<and> P i) js =
      filter (\<lambda>i. row_key (rs ! i) \<notin> seen \<and> row_key (rs ! i) \<noteq> row_key r \<and> P i) js"
    for P js
    by (intro filter_cong) auto
  show ?case
    unfolding upt
    by (simp add: Let_def Cons.IH filter_map comp_def same swap del: upt_Suc)
qed

lemma dedup_filter_first_occurrences: "dedup_filter {} xs = first_occurrences xs"
  by (simp add: dedup_filter_index first_occurrences_def)

text \<open>
  C2. For every pair of input row lists, of any lengths, the sequence the merger
  produces has at most 16 entries.
\<close>

theorem merger_at_most_16: "length (retrieval_merger search_rows essentials_rows) \<le> 16"
  by (simp add: retrieval_merger_def)

text \<open>
  C1 (as amended). For every pair of input row lists the merger returns the first 16
  rows of the deduplicated concatenation (search rows, then essentials rows), where the
  deduplicated concatenation keeps a row exactly when no earlier row has its key: every
  key of the input has exactly one row there, its first occurrence, and the survivors are
  in their original relative order. The truncation drops every row whose key is not
  among the first 16 distinct keys.
\<close>

theorem merger_keeps_first_occurrences:
  "retrieval_merger s e = take 16 (first_occurrences (s @ e))
   \<and> distinct (map row_key (first_occurrences (s @ e)))
   \<and> row_key ` set (first_occurrences (s @ e)) = row_key ` set (s @ e)
   \<and> length (first_occurrences (s @ e)) = card (row_key ` set (s @ e))
   \<and> distinct (map row_key (retrieval_merger s e))
   \<and> subseq (retrieval_merger s e) (s @ e)"
proof -
  let ?d = "dedup_filter {} (s @ e)"
  have fo: "first_occurrences (s @ e) = ?d"
    by (simp add: dedup_filter_first_occurrences)
  have m: "retrieval_merger s e = take 16 ?d"
    by (simp add: retrieval_merger_def)
  have d: "distinct (map row_key ?d)"
    by (rule dedup_filter_distinct)
  have k: "row_key ` set ?d = row_key ` set (s @ e)"
    using dedup_filter_keys [of "{}" "s @ e"] by simp
  have "length ?d = length (map row_key ?d)"
    by simp
  also have "\<dots> = card (set (map row_key ?d))"
    using d by (simp only: distinct_card)
  finally have l: "length ?d = card (row_key ` set (s @ e))"
    using k by simp
  have dm: "distinct (map row_key (take 16 ?d))"
    using d by (simp add: take_map [symmetric])
  have "subseq (take 16 ?d) ?d"
    by (metis append_take_drop_id subseq_order.order_refl list_emb_prefix)
  then have sm: "subseq (take 16 ?d) (s @ e)"
    using dedup_filter_subseq [of "{}" "s @ e"] by (rule subseq_order.order_trans)
  show ?thesis
    using d k l dm sm by (simp only: fo m simp_thms)
qed

text \<open>
  C1 as stated fails once the inputs carry more than 16 distinct keys: of twelve search
  rows and five essentials rows with pairwise different titles, the last essentials row
  is in the concatenation, and no row with its key survives.
\<close>

theorem merger_drops_seventeenth_key:
  "titled_row ''e05'' \<in> set (search_12 @ essentials_5)
   \<and> row_key (titled_row ''e05'')
       \<notin> set (map row_key (retrieval_merger search_12 essentials_5))"
  by (simp add: search_12_def essentials_5_def retrieval_merger_def row_key_def
      titled_row_def Let_def)

section \<open>Properties of the context formatter\<close>


















section \<open>Properties of the handler\<close>

lemma POST_try_invalid_json:
  "req_json req = Inl e \<Longrightarrow> POST_try s m w req = (Inl e, [])"
  by (simp add: POST_try_def)

lemma POST_try_nullish_body:
  "req_json req = Inr parsed \<Longrightarrow> nullish parsed \<Longrightarrow>
   POST_try s m w req = (Inl (TypeError DestructureNullish), [])"
  by (simp add: POST_try_def destructure_def)

lemma POST_try_bad_message:
  "req_json req = Inr parsed \<Longrightarrow> \<not> nullish parsed \<Longrightarrow>
   \<not> truthy (own_property parsed ''message'') \<or> js_typeof (own_property parsed ''message'') \<noteq> TString \<Longrightarrow>
   POST_try s m w req =
     (Inr (next_json (JObj [(''error'', JStr (''Missing '' @ [CHR 0x27] @ ''message'' @ [CHR 0x27] @ ''.''))])
              400 corsHeaders), [])"
  by (simp add: POST_try_def destructure_def)

lemma POST_try_no_store:
  "\<not> reaches_store w req \<Longrightarrow> snd (POST_try s m w req) = []"
  by (auto simp: POST_try_def reaches_store_def destructure_def Let_def
      split: sum.splits option.splits if_splits prod.splits)

lemma POST_try_store:
  assumes "reaches_store w req" and "req_json req = Inr parsed"
  shows "POST_try s m w req =
     (let message = string_value (own_property parsed ''message'');
          r = answer_from_reads s m w (or_empty (GROQ_API_KEY (process_env w))) message
                (own_property parsed ''conversationHistory'')
                (run_query w essentials_query) (run_query w (search_query (trim message)))
      in (fst r, [StoreRead essentials_query, StoreRead (search_query (trim message))] @ snd r))"
  using assms
  by (simp add: POST_try_def reaches_store_def destructure_def Let_def case_prod_unfold)



lemma answer_from_reads_essentials_error:
  "res_error essentialsRes = Some err \<Longrightarrow>
   answer_from_reads s m w k msg h essentialsRes searchRes =
     (Inr (next_json
            (JObj [(''error'', JStr ''Supabase essentials query failed''),
                   (''details'', JStr (error_message err))])
            500 corsHeaders), [])"
  by (simp add: answer_from_reads_def)

lemma answer_from_reads_search_error:
  "res_error essentialsRes = None \<Longrightarrow> res_error searchRes = Some err \<Longrightarrow>
   answer_from_reads s m w k msg h essentialsRes searchRes =
     (Inr (next_json
            (JObj [(''error'', JStr ''Supabase search query failed''),
                   (''details'', JStr (error_message err))])
            500 corsHeaders), [])"
  by (simp add: answer_from_reads_def)

lemma answer_from_reads_ok:
  "res_error essentialsRes = None \<Longrightarrow> res_error searchRes = None \<Longrightarrow>
   answer_from_reads s m w k msg h essentialsRes searchRes =
     (let data = retrieval_merger
                   (case res_data searchRes of None \<Rightarrow> [] | Some rows \<Rightarrow> rows)
                   (case res_data essentialsRes of None \<Rightarrow> [] | Some rows \<Rightarrow> rows)
      in case user_content data (format_context data) h msg of
           Inl e \<Rightarrow> (Inl e, [])
         | Inr c \<Rightarrow> (relay_completion (fetch w (completion_request k s m c)),
                     [CompletionCall (completion_request k s m c)]))"
  by (simp add: answer_from_reads_def Let_def split: sum.splits)

lemma answer_from_reads_call:
  assumes "CompletionCall rq \<in> set (snd (answer_from_reads s m w k msg h essentialsRes searchRes))"
  shows "fst (answer_from_reads s m w k msg h essentialsRes searchRes) = relay_completion (fetch w rq)"
proof -
  from assms have e: "res_error essentialsRes = None"
    by (cases "res_error essentialsRes") (simp_all add: answer_from_reads_essentials_error)
  from assms e have f: "res_error searchRes = None"
    by (cases "res_error searchRes") (simp_all add: answer_from_reads_search_error)
  from assms show ?thesis
    unfolding answer_from_reads_ok [OF e f] Let_def
    by (simp split: sum.splits)
qed

lemma answer_from_reads_no_store_read:
  "StoreRead q \<notin> set (snd (answer_from_reads s m w k msg h essentialsRes searchRes))"
  by (simp add: answer_from_reads_def Let_def split: option.splits sum.splits)

lemma relay_completion_shape:
  "relay_completion f = Inr r \<Longrightarrow> \<exists>b st. r = next_json b st corsHeaders \<and> st \<in> {200, 500}"
  by (auto simp: relay_completion_def split: sum.splits if_splits)

lemma answer_from_reads_shape:
  assumes r: "fst (answer_from_reads s m w k msg h essentialsRes searchRes) = Inr r"
  shows "\<exists>b st. r = next_json b st corsHeaders \<and> st \<in> {200, 500}"
proof (cases "res_error essentialsRes")
  case (Some err)
  with r show ?thesis
    by (auto simp: answer_from_reads_essentials_error)
next
  case None
  note e = this
  show ?thesis
  proof (cases "res_error searchRes")
    case (Some err)
    with e r show ?thesis
      by (auto simp: answer_from_reads_search_error)
  next
    case None
    from r obtain f where "relay_completion f = Inr r"
      unfolding answer_from_reads_ok [OF e None] Let_def
      by (auto split: sum.splits)
    then show ?thesis by (rule relay_completion_shape)
  qed
qed

lemma POST_try_shape:
  assumes "fst (POST_try s m w req) = Inr r"
  shows "\<exists>b st. r = next_json b st corsHeaders \<and> st \<in> {200, 400, 500}"
proof (cases "reaches_store w req")
  case True
  then obtain parsed where "req_json req = Inr parsed"
    by (auto simp: reaches_store_def split: sum.splits)
  from assms answer_from_reads_shape show ?thesis
    unfolding POST_try_store [OF True \<open>req_json req = Inr parsed\<close>] Let_def
    by fastforce
next
  case False
  with assms show ?thesis
    by (auto simp: POST_try_def reaches_store_def destructure_def Let_def
        split: sum.splits option.splits if_splits prod.splits)
qed

lemma POST_with_shape:
  "\<exists>b st. fst (POST_with s m w req) = next_json b st corsHeaders \<and> st \<in> {200, 400, 500}"
proof (cases "fst (POST_try s m w req)")
  case (Inl e)
  then show ?thesis
    by (cases "POST_try s m w req") (auto simp: POST_with_def)
next
  case (Inr r)
  from POST_try_shape [OF this] show ?thesis
    using Inr by (cases "POST_try s m w req") (auto simp: POST_with_def)
qed

lemma POST_with_calls: "snd (POST_with s m w req) = snd (POST_try s m w req)"
  by (cases "POST_try s m w req") (simp add: POST_with_def split: sum.splits)

lemma POST_with_returned:
  "fst (POST_try s m w req) = Inr r \<Longrightarrow> fst (POST_with s m w req) = r"
  by (cases "POST_try s m w req") (simp add: POST_with_def)

lemma POST_with_caught:
  "fst (POST_try s m w req) = Inl e \<Longrightarrow>
   fst (POST_with s m w req) =
     next_json (JObj [(''error'', JStr ''Server error''), (''details'', JStr (thrown_message w e))])
       500 corsHeaders"
  by (cases "POST_try s m w req") (simp add: POST_with_def)

lemma next_json_cors: "has_cors_headers (next_json b st corsHeaders)"
  by (simp add: has_cors_headers_def next_json_def corsHeaders_def)

text \<open>
  C3 (as amended). For every POST request whose parsed JSON body is not \<open>null\<close> and
  has no \<open>message\<close> field, or a \<open>message\<close> that is not a string (a number, say),
  the handler returns the 400 error envelope and issues no store read and no completion
  call.
\<close>

theorem invalid_message_gives_400:
  assumes "req_json req = Inr parsed"
    and "\<not> nullish parsed"
    and "js_typeof (own_property parsed ''message'') \<noteq> TString"
  shows "status (fst (POST system_template w req)) = 400
     \<and> response_field (fst (POST system_template w req)) ''error''
         = Some (JStr (''Missing '' @ [CHR 0x27] @ ''message'' @ [CHR 0x27] @ ''.''))
     \<and> has_cors_headers (fst (POST system_template w req))
     \<and> store_reads (snd (POST system_template w req)) = []
     \<and> completion_calls (snd (POST system_template w req)) = []"
proof -
  have "POST_try (trim system_template) 300 w req =
     (Inr (next_json (JObj [(''error'', JStr (''Missing '' @ [CHR 0x27] @ ''message'' @ [CHR 0x27] @ ''.''))])
              400 corsHeaders), [])"
    using assms by (intro POST_try_bad_message) blast+
  then have "POST system_template w req =
     (next_json (JObj [(''error'', JStr (''Missing '' @ [CHR 0x27] @ ''message'' @ [CHR 0x27] @ ''.''))])
              400 corsHeaders, [])"
    by (simp add: POST_def POST_with_def)
  then show ?thesis
    by (simp add: next_json_cors) (simp add: next_json_def response_field_def)
qed

theorem invalid_message_gives_400_witness:
  "req_json \<lparr>req_json = Inr (JObj [(''message'', JNum ''42'')])\<rparr>
     = Inr (JObj [(''message'', JNum ''42'')])
   \<and> \<not> nullish (JObj [(''message'', JNum ''42'')])
   \<and> js_typeof (own_property (JObj [(''message'', JNum ''42'')]) ''message'') \<noteq> TString
   \<and> status (fst (POST demo_system demo_world \<lparr>req_json = Inr (JObj [(''message'', JNum ''42'')])\<rparr>)) = 400
   \<and> store_reads (snd (POST demo_system demo_world \<lparr>req_json = Inr (JObj [(''message'', JNum ''42'')])\<rparr>)) = []
   \<and> completion_calls (snd (POST demo_system demo_world \<lparr>req_json = Inr (JObj [(''message'', JNum ''42'')])\<rparr>)) = []"
  using invalid_message_gives_400 [of "\<lparr>req_json = Inr (JObj [(''message'', JNum ''42'')])\<rparr>"
      "JObj [(''message'', JNum ''42'')]" demo_system demo_world]
  by simp

text \<open>
  C3 as stated fails for the JSON body \<open>null\<close>: it parses, it has no \<open>message\<close>
  field, and the destructuring of line 18 throws, so the \<open>catch\<close> answers 500.
\<close>

theorem null_body_gives_500:
  "status (fst (POST demo_system demo_world \<lparr>req_json = Inr JNull\<rparr>)) = 500
   \<and> response_field (fst (POST demo_system demo_world \<lparr>req_json = Inr JNull\<rparr>)) ''error''
       = Some (JStr ''Server error'')"
  by (simp add: POST_def POST_with_def POST_try_def destructure_def next_json_def
      response_field_def)

lemma POST_calls: "snd (POST t w req) = snd (POST_try (trim t) 300 w req)"
  by (simp add: POST_def POST_with_calls)

lemma POST_try_reached:
  assumes "snd (POST_try s m w req) \<noteq> []"
  obtains parsed where "reaches_store w req" and "req_json req = Inr parsed"
proof -
  from assms have r: "reaches_store w req"
    using POST_try_no_store by blast
  then obtain parsed where "req_json req = Inr parsed"
    by (auto simp: reaches_store_def split: sum.splits)
  with r that show ?thesis by blast
qed

text \<open>
  C4 (as amended). For every POST request in which a store read was issued and reports
  an error, the handler returns status 500 and makes no completion call; the \<open>details\<close>
  field of the body is the message reported by the essentials read when that read
  failed, and otherwise the message reported by the failing search read.
\<close>

theorem store_error_gives_500:
  assumes "StoreRead qry \<in> set (snd (POST system_template w req))"
    and "res_error (run_query w qry) = Some err"
  shows "status (fst (POST system_template w req)) = 500
     \<and> response_field (fst (POST system_template w req)) ''details''
         = Some (JStr (error_message
             (case res_error (run_query w essentials_query) of Some first \<Rightarrow> first | None \<Rightarrow> err)))
     \<and> has_cors_headers (fst (POST system_template w req))
     \<and> completion_calls (snd (POST system_template w req)) = []"
proof -
  let ?s = "trim system_template"
  from assms(1) have mem: "StoreRead qry \<in> set (snd (POST_try ?s 300 w req))"
    by (simp add: POST_calls)
  then have "snd (POST_try ?s 300 w req) \<noteq> []" by auto
  then obtain parsed where reach: "reaches_store w req" and parsed: "req_json req = Inr parsed"
    by (rule POST_try_reached)
  define msg where "msg = string_value (own_property parsed ''message'')"
  define r where "r = answer_from_reads ?s 300 w (or_empty (GROQ_API_KEY (process_env w))) msg
                (own_property parsed ''conversationHistory'')
                (run_query w essentials_query) (run_query w (search_query (trim msg)))"
  have tr: "POST_try ?s 300 w req =
      (fst r, [StoreRead essentials_query, StoreRead (search_query (trim msg))] @ snd r)"
    unfolding POST_try_store [OF reach parsed] by (simp add: Let_def msg_def r_def)
  have "StoreRead qry \<notin> set (snd r)"
    unfolding r_def by (rule answer_from_reads_no_store_read)
  with mem have qry: "qry = essentials_query \<or> qry = search_query (trim msg)"
    by (auto simp: tr)
  have "\<exists>label. r = (Inr (next_json
            (JObj [(''error'', JStr label),
                   (''details'', JStr (error_message
             (case res_error (run_query w essentials_query) of Some first \<Rightarrow> first | None \<Rightarrow> err)))])
            500 corsHeaders), [])"
  proof (cases "res_error (run_query w essentials_query)")
    case (Some first)
    then show ?thesis
      unfolding r_def by (auto simp: answer_from_reads_essentials_error)
  next
    case None
    with assms(2) qry have "res_error (run_query w (search_query (trim msg))) = Some err"
      by auto
    with None show ?thesis
      unfolding r_def by (auto simp: answer_from_reads_search_error)
  qed
  then obtain label where "POST_try ?s 300 w req = (Inr (next_json
            (JObj [(''error'', JStr label),
                   (''details'', JStr (error_message
             (case res_error (run_query w essentials_query) of Some first \<Rightarrow> first | None \<Rightarrow> err)))])
            500 corsHeaders), [StoreRead essentials_query, StoreRead (search_query (trim msg))])"
    by (auto simp: tr)
  then have "POST system_template w req = (next_json
            (JObj [(''error'', JStr label),
                   (''details'', JStr (error_message
             (case res_error (run_query w essentials_query) of Some first \<Rightarrow> first | None \<Rightarrow> err)))])
            500 corsHeaders, [StoreRead essentials_query, StoreRead (search_query (trim msg))])"
    by (simp add: POST_def POST_with_def)
  then show ?thesis
    by (simp add: next_json_cors) (simp add: next_json_def response_field_def)
qed

lemma failing_search_trace:
  "StoreRead (search_query ''education'')
     \<in> set (snd (POST demo_system failing_search_world demo_request))"
  by code_simp

theorem store_error_gives_500_witness:
  "StoreRead (search_query ''education'')
     \<in> set (snd (POST demo_system failing_search_world demo_request))
   \<and> res_error (run_query failing_search_world (search_query ''education''))
       = Some \<lparr>error_message = ''permission denied''\<rparr>
   \<and> status (fst (POST demo_system failing_search_world demo_request)) = 500
   \<and> response_field (fst (POST demo_system failing_search_world demo_request)) ''details''
       = Some (JStr ''permission denied'')
   \<and> completion_calls (snd (POST demo_system failing_search_world demo_request)) = []"
proof -
  have e: "res_error (run_query failing_search_world (search_query ''education''))
       = Some \<lparr>error_message = ''permission denied''\<rparr>"
    by (simp add: failing_search_world_def search_query_def essentials_query_def)
  have n: "res_error (run_query failing_search_world essentials_query) = None"
    by (simp add: failing_search_world_def)
  show ?thesis
    using store_error_gives_500 [OF failing_search_trace e] failing_search_trace e n
    by simp
qed

text \<open>
  C4 as stated fails when both reads report an error: the search read reports
  \<open>permission denied\<close>, and \<open>details\<close> is the essentials read's message, since line
  91 is checked before line 100.
\<close>

theorem both_reads_fail_reports_essentials:
  "StoreRead (search_query ''education'')
     \<in> set (snd (POST demo_system both_reads_fail_world demo_request))
   \<and> res_error (run_query both_reads_fail_world (search_query ''education''))
       = Some \<lparr>error_message = ''permission denied''\<rparr>
   \<and> status (fst (POST demo_system both_reads_fail_world demo_request)) = 500
   \<and> response_field (fst (POST demo_system both_reads_fail_world demo_request)) ''details''
       = Some (JStr ''essentials down'')
   \<and> response_field (fst (POST demo_system both_reads_fail_world demo_request)) ''details''
       \<noteq> Some (JStr ''permission denied'')"
  by code_simp

text \<open>
  C5 (as amended). For every POST request in which the completion call was made and
  the service answers with a success status and a JSON body in which the first choice's
  message content is absent (\<open>out?.choices?.[0]?.message?.content\<close> is \<open>null\<close> or
  \<open>undefined\<close>), the handler returns status 200 with \<open>response\<close> equal to the
  sentence \<open>I don't know based on my portfolio content.\<close>
\<close>

theorem empty_completion_gives_fallback:
  assumes "CompletionCall rq \<in> set (snd (POST system_template w req))"
    and "fetch w rq = Inr resp"
    and "ok resp"
    and "json_result resp = Inr out"
    and "nullish (opt_member (opt_member (opt_index0 (opt_member out ''choices'')) ''message'') ''content'')"
  shows "status (fst (POST system_template w req)) = 200
     \<and> response_field (fst (POST system_template w req)) ''response''
         = Some (JStr (''I don'' @ [CHR 0x27] @ ''t know based on my portfolio content.''))
     \<and> has_cors_headers (fst (POST system_template w req))"
proof -
  let ?s = "trim system_template"
  from assms(1) have mem: "CompletionCall rq \<in> set (snd (POST_try ?s 300 w req))"
    by (simp add: POST_calls)
  then have "snd (POST_try ?s 300 w req) \<noteq> []" by auto
  then obtain parsed where reach: "reaches_store w req" and parsed: "req_json req = Inr parsed"
    by (rule POST_try_reached)
  define msg where "msg = string_value (own_property parsed ''message'')"
  define r where "r = answer_from_reads ?s 300 w (or_empty (GROQ_API_KEY (process_env w))) msg
                (own_property parsed ''conversationHistory'')
                (run_query w essentials_query) (run_query w (search_query (trim msg)))"
  have tr: "POST_try ?s 300 w req =
      (fst r, [StoreRead essentials_query, StoreRead (search_query (trim msg))] @ snd r)"
    unfolding POST_try_store [OF reach parsed] by (simp add: Let_def msg_def r_def)
  from mem have "CompletionCall rq \<in> set (snd r)"
    by (simp add: tr)
  then have "fst r = relay_completion (fetch w rq)"
    unfolding r_def by (rule answer_from_reads_call)
  also have "\<dots> = Inr (next_json (JObj [(''response'', JStr fallback_sentence)]) 200 corsHeaders)"
    using assms(2-5) by (simp add: relay_completion_def answer_of_def coalesce_def)
  finally have "fst (POST_try ?s 300 w req) =
      Inr (next_json (JObj [(''response'', JStr fallback_sentence)]) 200 corsHeaders)"
    by (simp add: tr)
  then have "fst (POST system_template w req) =
      next_json (JObj [(''response'', JStr fallback_sentence)]) 200 corsHeaders"
    unfolding POST_def by (rule POST_with_returned)
  then show ?thesis
    by (simp add: next_json_cors) (simp add: next_json_def response_field_def fallback_sentence_def)
qed

lemma demo_trace:
  "CompletionCall demo_completion_request
     \<in> set (snd (POST demo_system demo_world demo_request))"
  by code_simp

theorem empty_completion_gives_fallback_witness:
  "CompletionCall demo_completion_request \<in> set (snd (POST demo_system demo_world demo_request))
   \<and> fetch demo_world demo_completion_request
       = Inr \<lparr>ok = True, text_result = Inr ''{}'', json_result = Inr (JObj [])\<rparr>
   \<and> ok \<lparr>ok = True, text_result = Inr ''{}'', json_result = Inr (JObj [])\<rparr>
   \<and> json_result \<lparr>ok = True, text_result = Inr ''{}'', json_result = Inr (JObj [])\<rparr> = Inr (JObj [])
   \<and> nullish (opt_member (opt_member (opt_index0 (opt_member (JObj []) ''choices'')) ''message'') ''content'')
   \<and> status (fst (POST demo_system demo_world demo_request)) = 200
   \<and> response_field (fst (POST demo_system demo_world demo_request)) ''response''
       = Some (JStr (''I don'' @ [CHR 0x27] @ ''t know based on my portfolio content.''))"
proof -
  have f: "fetch demo_world demo_completion_request
       = Inr \<lparr>ok = True, text_result = Inr ''{}'', json_result = Inr (JObj [])\<rparr>"
    by (simp add: demo_world_def)
  have n: "nullish (opt_member (opt_member (opt_index0 (opt_member (JObj []) ''choices'')) ''message'') ''content'')"
    by (simp add: opt_member_def)
  show ?thesis
    using empty_completion_gives_fallback [OF demo_trace f _ _ n] demo_trace f n
    by simp
qed

text \<open>
  C5 as stated fails when the content is present and holds no answer text, and when the
  body is not JSON: \<open>??\<close> replaces only \<open>null\<close> and \<open>undefined\<close>, so an empty
  string and a number are relayed as they are with status 200, and a body that
  \<open>resp.json()\<close> rejects is answered 500 by the \<open>catch\<close>.
\<close>

theorem present_content_or_unparsable_body_not_fallback:
  "CompletionCall demo_completion_request
     \<in> set (snd (POST demo_system empty_content_world demo_request))
   \<and> status (fst (POST demo_system empty_content_world demo_request)) = 200
   \<and> response_field (fst (POST demo_system empty_content_world demo_request)) ''response''
       = Some (JStr [])
   \<and> CompletionCall demo_completion_request
     \<in> set (snd (POST demo_system number_content_world demo_request))
   \<and> status (fst (POST demo_system number_content_world demo_request)) = 200
   \<and> response_field (fst (POST demo_system number_content_world demo_request)) ''response''
       = Some (JNum ''42'')
   \<and> CompletionCall demo_completion_request
     \<in> set (snd (POST demo_system not_json_completion_world demo_request))
   \<and> status (fst (POST demo_system not_json_completion_world demo_request)) = 500
   \<and> response_field (fst (POST demo_system not_json_completion_world demo_request)) ''error''
       = Some (JStr ''Server error'')"
  by code_simp

text \<open>
  C7. Every response of the endpoint carries the three cross-origin headers (any
  origin; methods POST and OPTIONS; header Content-Type): the OPTIONS response, which
  has status 204 and no body, and every POST response, whose status is 200, 400 or 500.
\<close>

theorem responses_carry_cors_headers:
  "status OPTIONS = 204
   \<and> body OPTIONS = None
   \<and> has_cors_headers OPTIONS
   \<and> has_cors_headers (fst (POST system_template w req))
   \<and> status (fst (POST system_template w req)) \<in> {200, 400, 500}"
proof -
  obtain b st where "fst (POST system_template w req) = next_json b st corsHeaders"
    and "st \<in> {200, 400, 500}"
    unfolding POST_def using POST_with_shape by blast
  then have "has_cors_headers (fst (POST system_template w req))"
    and "status (fst (POST system_template w req)) \<in> {200, 400, 500}"
    by (simp_all add: next_json_cors) (simp add: next_json_def)
  moreover have "status OPTIONS = 204 \<and> body OPTIONS = None \<and> has_cors_headers OPTIONS"
    by (simp add: OPTIONS_def has_cors_headers_def corsHeaders_def)
  ultimately show ?thesis by blast
qed

lemma history_lines_not_array:
  "\<not> nullish h \<Longrightarrow> \<not> is_array h \<Longrightarrow> history_lines h = Inl (TypeError NotCallable)"
  by (cases h) (simp_all add: history_lines_def coalesce_def)

text \<open>
  C10 (as amended). For every POST request whose body is not valid JSON, the handler
  returns status 500 with error \<open>Server error\<close> through the top-level \<open>catch\<close>, and
  issues no call. For every POST request that passes validation and configuration (a
  non-empty string \<open>message\<close>, all three environment variables, a created store client),
  whose two reads succeed and whose \<open>conversationHistory\<close> is neither absent, nor
  \<open>null\<close>, nor an array, the handler likewise returns status 500 with error
  \<open>Server error\<close>, and makes no completion call.
\<close>

theorem unparsable_or_malformed_history_gives_500:
  "(req_json req = Inl e \<longrightarrow>
      POST system_template w req =
        (next_json
           (JObj [(''error'', JStr ''Server error''), (''details'', JStr (thrown_message w e))])
           500 corsHeaders, []))
   \<and> (req_json req = Inr parsed
        \<and> reaches_store w req
        \<and> res_error (run_query w essentials_query) = None
        \<and> res_error (run_query w
              (search_query (trim (string_value (own_property parsed ''message''))))) = None
        \<and> \<not> nullish (own_property parsed ''conversationHistory'')
        \<and> \<not> is_array (own_property parsed ''conversationHistory'')
      \<longrightarrow> status (fst (POST system_template w req)) = 500
          \<and> response_field (fst (POST system_template w req)) ''error''
              = Some (JStr ''Server error'')
          \<and> completion_calls (snd (POST system_template w req)) = [])"
proof (intro conjI impI)
  assume "req_json req = Inl e"
  then show "POST system_template w req =
        (next_json
           (JObj [(''error'', JStr ''Server error''), (''details'', JStr (thrown_message w e))])
           500 corsHeaders, [])"
    by (simp add: POST_def POST_with_def POST_try_invalid_json)
next
  assume a: "req_json req = Inr parsed
        \<and> reaches_store w req
        \<and> res_error (run_query w essentials_query) = None
        \<and> res_error (run_query w
              (search_query (trim (string_value (own_property parsed ''message''))))) = None
        \<and> \<not> nullish (own_property parsed ''conversationHistory'')
        \<and> \<not> is_array (own_property parsed ''conversationHistory'')"
  let ?s = "trim system_template"
  define msg where "msg = string_value (own_property parsed ''message'')"
  define h where "h = own_property parsed ''conversationHistory''"
  from a have parsed: "req_json req = Inr parsed" and reach: "reaches_store w req"
    and e: "res_error (run_query w essentials_query) = None"
    and f: "res_error (run_query w (search_query (trim msg))) = None"
    and h: "\<not> nullish h" "\<not> is_array h"
    by (simp_all add: msg_def h_def)
  have "answer_from_reads ?s 300 w (or_empty (GROQ_API_KEY (process_env w))) msg h
          (run_query w essentials_query) (run_query w (search_query (trim msg)))
        = (Inl (TypeError NotCallable), [])"
    unfolding answer_from_reads_ok [OF e f]
    by (simp add: Let_def user_content_def history_lines_not_array [OF h])
  then have "POST_try ?s 300 w req =
      (Inl (TypeError NotCallable),
       [StoreRead essentials_query, StoreRead (search_query (trim msg))])"
    unfolding POST_try_store [OF reach parsed] by (simp add: Let_def msg_def h_def)
  then have p: "POST system_template w req =
      (next_json
         (JObj [(''error'', JStr ''Server error''),
                (''details'', JStr (thrown_message w (TypeError NotCallable)))])
         500 corsHeaders,
       [StoreRead essentials_query, StoreRead (search_query (trim msg))])"
    by (simp add: POST_def POST_with_def)
  show "status (fst (POST system_template w req)) = 500"
    by (simp add: p next_json_def)
  show "response_field (fst (POST system_template w req)) ''error'' = Some (JStr ''Server error'')"
    by (simp add: p next_json_def response_field_def)
  show "completion_calls (snd (POST system_template w req)) = []"
    by (simp add: p)
qed

theorem unparsable_or_malformed_history_gives_500_witness:
  "req_json not_json_request = Inl (Thrown ''Unexpected token'')
   \<and> POST demo_system demo_world not_json_request =
        (next_json
           (JObj [(''error'', JStr ''Server error''), (''details'', JStr ''Unexpected token'')])
           500 corsHeaders, [])
   \<and> req_json \<lparr>req_json = Inr number_history\<rparr> = Inr number_history
   \<and> reaches_store demo_world \<lparr>req_json = Inr number_history\<rparr>
   \<and> res_error (run_query demo_world essentials_query) = None
   \<and> res_error (run_query demo_world
         (search_query (trim (string_value (own_property number_history ''message''))))) = None
   \<and> \<not> nullish (own_property number_history ''conversationHistory'')
   \<and> \<not> is_array (own_property number_history ''conversationHistory'')
   \<and> status (fst (POST demo_system demo_world \<lparr>req_json = Inr number_history\<rparr>)) = 500
   \<and> response_field (fst (POST demo_system demo_world \<lparr>req_json = Inr number_history\<rparr>)) ''error''
       = Some (JStr ''Server error'')
   \<and> completion_calls (snd (POST demo_system demo_world \<lparr>req_json = Inr number_history\<rparr>)) = []"
proof -
  have r: "reaches_store demo_world \<lparr>req_json = Inr number_history\<rparr>"
    by (simp add: reaches_store_def demo_world_def demo_env_def number_history_def)
  have q: "res_error (run_query demo_world q) = None" for q
    by (simp add: demo_world_def)
  have h: "\<not> nullish (own_property number_history ''conversationHistory'')"
    "\<not> is_array (own_property number_history ''conversationHistory'')"
    by (simp_all add: number_history_def)
  have j: "req_json not_json_request = Inl (Thrown ''Unexpected token'')"
    by (simp add: not_json_request_def)
  show ?thesis
    using unparsable_or_malformed_history_gives_500
        [of not_json_request "Thrown ''Unexpected token''" demo_system demo_world number_history]
      unparsable_or_malformed_history_gives_500
        [of "\<lparr>req_json = Inr number_history\<rparr>" "Thrown []" demo_system demo_world number_history]
      r q h j
    by simp
qed

text \<open>
  C10 as stated fails in both directions: a body with a number as history and no
  \<open>message\<close> is answered 400 by the validation of line 20, before the history is read;
  and a history that is present as \<open>null\<close> is replaced by the empty array
  (\<open>conversationHistory ?? []\<close>), so the request is answered 200.
\<close>

theorem malformed_history_not_always_500:
  "status (fst (POST demo_system demo_world
      \<lparr>req_json = Inr (JObj [(''conversationHistory'', JNum ''5'')])\<rparr>)) = 400
   \<and> status (fst (POST demo_system demo_world
      \<lparr>req_json = Inr (JObj [(''message'', JStr ''hi''), (''conversationHistory'', JNull)])\<rparr>)) = 200"
  by code_simp

section \<open>The two handler files\<close>

lemma corsHeaders_alt_eq: "corsHeaders_alt = corsHeaders"
  by (simp add: corsHeaders_alt_def corsHeaders_def)

lemma OPTIONS_alt_eq: "OPTIONS_alt = OPTIONS"
  by (simp add: OPTIONS_alt_def OPTIONS_def corsHeaders_alt_eq)

lemma essentials_query_alt_eq: "essentials_query_alt = essentials_query"
  by (simp add: essentials_query_alt_def essentials_query_def)

lemma search_query_alt_eq: "search_query_alt q = search_query q"
  by (simp add: search_query_alt_def search_query_def)

lemma row_key_alt_eq: "row_key_alt r = row_key r"
  by (simp add: row_key_alt_def row_key_def)

lemma dedup_filter_alt_eq: "dedup_filter_alt seen rs = dedup_filter seen rs"
  by (induction rs arbitrary: seen) (simp_all add: row_key_alt_eq Let_def)

lemma retrieval_merger_alt_eq: "retrieval_merger_alt s e = retrieval_merger s e"
  by (simp add: retrieval_merger_alt_def retrieval_merger_def dedup_filter_alt_eq)

lemma source_block_alt_eq: "source_block_alt idx r = source_block idx r"
  by (simp add: source_block_alt_def source_block_def)

lemma format_context_alt_eq: "format_context_alt data = format_context data"
  by (simp add: format_context_alt_def format_context_def source_block_alt_eq)

lemma history_line_alt_eq: "history_line_alt m = history_line m"
  by (simp add: history_line_alt_def history_line_def)

lemma history_lines_alt_eq: "history_lines_alt h = history_lines h"
proof -
  have "history_line_alt = history_line"
    by (rule ext) (rule history_line_alt_eq)
  then show ?thesis
    by (simp add: history_lines_alt_def history_lines_def cong: js_value.case_cong)
qed

lemma user_content_alt_eq: "user_content_alt data c h msg = user_content data c h msg"
  by (simp add: user_content_alt_def user_content_def history_lines_alt_eq)

lemma completion_request_alt_eq: "completion_request_alt k s m c = completion_request k s m c"
  by (simp add: completion_request_alt_def completion_request_def)

lemma answer_of_alt_eq: "answer_of_alt out = answer_of out"
  by (simp add: answer_of_alt_def answer_of_def fallback_sentence_alt_def fallback_sentence_def)

lemma relay_completion_alt_eq: "relay_completion_alt f = relay_completion f"
  by (simp add: relay_completion_alt_def relay_completion_def answer_of_alt_eq corsHeaders_alt_eq
      cong: sum.case_cong if_cong)

lemma answer_from_reads_alt_eq:
  "answer_from_reads_alt s m w k msg h e sr = answer_from_reads s m w k msg h e sr"
  by (simp add: answer_from_reads_alt_def answer_from_reads_def corsHeaders_alt_eq
      retrieval_merger_alt_eq format_context_alt_eq user_content_alt_eq
      completion_request_alt_eq relay_completion_alt_eq
      cong: option.case_cong sum.case_cong)

lemma POST_try_alt_eq: "POST_try_alt s m w req = POST_try s m w req"
  by (simp add: POST_try_alt_def POST_try_def corsHeaders_alt_eq essentials_query_alt_eq
      search_query_alt_eq answer_from_reads_alt_eq
      cong: option.case_cong sum.case_cong prod.case_cong if_cong)

lemma POST_with_alt_eq: "POST_with_alt s m w req = POST_with s m w req"
  by (simp add: POST_with_alt_def POST_with_def POST_try_alt_eq corsHeaders_alt_eq
      cong: sum.case_cong prod.case_cong)

text \<open>
  C8. The two handler files compute the same response and issue the same calls for
  every input once the system message and the token budget are the same: route.ts sends
  its template trimmed with a budget of 300, part_000 sends its template as it stands
  with a budget of 120, and with these two values as parameters the handlers are equal,
  as are their parts: preflight response, queries, merger, context formatter, user
  message, completion request, and the mapping of the completion outcome to a response.
\<close>

theorem handlers_differ_in_system_and_budget_only:
  "POST system_template w req = POST_with (trim system_template) 300 w req
   \<and> POST_alt system_template_alt w req = POST_with_alt system_template_alt 120 w req
   \<and> POST_with_alt system max_tokens w req = POST_with system max_tokens w req
   \<and> OPTIONS_alt = OPTIONS
   \<and> essentials_query_alt = essentials_query
   \<and> search_query_alt q = search_query q
   \<and> retrieval_merger_alt search_rows essentials_rows = retrieval_merger search_rows essentials_rows
   \<and> format_context_alt data = format_context data
   \<and> user_content_alt data context conversationHistory message
       = user_content data context conversationHistory message
   \<and> completion_request_alt groqKey system max_tokens content'
       = completion_request groqKey system max_tokens content'
   \<and> relay_completion_alt fetched = relay_completion fetched"
  by (simp only: POST_def POST_alt_def POST_with_alt_eq OPTIONS_alt_eq essentials_query_alt_eq
      search_query_alt_eq retrieval_merger_alt_eq format_context_alt_eq user_content_alt_eq
      completion_request_alt_eq relay_completion_alt_eq simp_thms)

section \<open>Collisions of the merger's key\<close>





end
